theory Spec2Isabelle
  imports Complex_Main "HOL-Library.Char_ord" "HOL-Library.List_Lexorder" "HOL-Library.Multiset"
    "HOL-Library.Log_Nat"
begin

section \<open>Data model\<close>

text \<open>
  The schema of the migration (\<^verbatim>\<open>CREATE TYPE\<close>, \<^verbatim>\<open>CREATE TABLE\<close>) and the
  TypeScript interfaces of the pages describe the same rows.

  \<^item> \<^verbatim>\<open>NUMERIC\<close> columns and the JavaScript numbers read from them are rationals
    (\<open>rat\<close>). The reorder report's arithmetic is modelled in IEEE doubles. The
    stock-update page is modelled with exact arithmetic; the sum it forms is given in
    doubles separately (\<open>newQuantity_js\<close>), and the equation between the numbers of a
    history row is stated where the two agree.
  \<^item> \<^verbatim>\<open>TIMESTAMPTZ\<close> values are microseconds since the epoch (\<open>int\<close>), the
    resolution of the database; JavaScript's \<^verbatim>\<open>getTime()\<close> is milliseconds.
  \<^item> Nullable columns are \<open>option\<close>s.
  \<^item> The columns \<^verbatim>\<open>id\<close> and \<^verbatim>\<open>notes\<close> are the fields \<open>id_col\<close> and
    \<open>notes_col\<close>. The generated key and
    \<^verbatim>\<open>created_at\<close> of a material, and the generated key of a history row, are
    never read by the code below and are left out.
\<close>

datatype stock_status = critical | low | safe

datatype update_reason = purchase | production_use | adjustment | damage | return

text \<open>
  The position of a label in \<^verbatim>\<open>CREATE TYPE public.stock_status AS ENUM
  ('critical', 'low', 'safe')\<close>: the database compares and sorts enum values by it.
  The most severe state comes first.
\<close>

fun enum_pos :: "stock_status \<Rightarrow> nat" where
  "enum_pos critical = 0"
| "enum_pos low = 1"
| "enum_pos safe = 2"

text \<open>
  The columns the stock-update page selects
  (\<^verbatim>\<open>select("id, material_code, name, current_quantity, unit")\<close>, its interface
  \<^verbatim>\<open>Material\<close>), extended to the whole row of \<^verbatim>\<open>public.materials\<close>.
\<close>

record material_view =
  id_col :: string
  material_code :: string
  name :: string
  current_quantity :: rat
  unit :: string

record material = material_view +
  supplier_id :: "string option"
  warehouse_id :: "string option"
  reorder_point :: rat
  safety_stock :: rat
  avg_daily_usage :: "rat option"
  lead_time_days :: "int option"
  status :: stock_status
  shortage_date :: "int option"
  updated_at :: int

record stock_history =
  material_id :: string
  user_id :: string
  quantity_before :: rat
  quantity_after :: rat
  quantity_change :: rat
  reason :: update_reason
  notes_col :: "string option"
  created_at :: int

record database =
  materials_tbl :: "material list"
  stock_history_tbl :: "stock_history list"

section \<open>The trigger \<^verbatim>\<open>update_material_status\<close>\<close>

text \<open>
  \<^verbatim>\<open>(x || ' days')::INTERVAL\<close>: the interval input of the database accepts a
  fractional number of days and spills the fraction of a day into the time part of the
  interval, at microsecond resolution. The interval is given here as its length in
  microseconds (a day of 24 hours: the session's time zone is UTC). The model divides
  exactly, rounds once and has no bounds. The database rounds the quotient to a scale
  of at least 16 significant digits first and raises an error when the interval or the
  timestamp leaves its range; statements about the shortage date are therefore made
  for quantities that last less than \<open>10\<^sup>8\<close> days, and to within a microsecond.
\<close>

definition usecs_per_day :: int where
  "usecs_per_day = 86400000000"

definition days_interval :: "rat \<Rightarrow> int" where
  "days_interval x = round (x * of_int usecs_per_day)"

text \<open>
  The trigger function, run \<^verbatim>\<open>BEFORE INSERT OR UPDATE\<close> on every row of
  \<^verbatim>\<open>public.materials\<close>; \<open>now\<close> is \<^verbatim>\<open>NOW()\<close>, \<open>NEW\<close> the row about to
  be written. A comparison with a \<^verbatim>\<open>NULL\<close> usage is not true, so the
  \<^verbatim>\<open>ELSE\<close> branch is taken.
\<close>

definition update_material_status :: "int \<Rightarrow> material \<Rightarrow> material" where
  "update_material_status now NEW =
     (let NEW1 =
        (case avg_daily_usage NEW of
           None \<Rightarrow> NEW\<lparr>shortage_date := None\<rparr>
         | Some usage \<Rightarrow>
             if usage > 0
             then NEW\<lparr>shortage_date := Some (now + days_interval (current_quantity NEW / usage))\<rparr>
             else NEW\<lparr>shortage_date := None\<rparr>);
          NEW2 =
        (if current_quantity NEW1 \<le> safety_stock NEW1 then NEW1\<lparr>status := critical\<rparr>
         else if current_quantity NEW1 \<le> reorder_point NEW1 then NEW1\<lparr>status := low\<rparr>
         else NEW1\<lparr>status := safe\<rparr>)
      in NEW2\<lparr>updated_at := now\<rparr>)"

section \<open>The materials page and the reorder report\<close>

text \<open>
  \<^verbatim>\<open>new Date(material.shortage_date).getTime()\<close>. The page receives the
  timestamp as text with a four-digit year (the session's time zone is UTC). It reads
  the text of an instant in the years 1 to 9999 as milliseconds since the epoch, the
  digits below a millisecond dropped. An instant of a later year is printed with more
  than four digits and one before year 1 with the suffix BC: the page reads neither,
  the date is invalid and its time is \<^verbatim>\<open>NaN\<close>, here \<open>None\<close>.
\<close>

definition year_1 :: int where
  "year_1 = - 62135596800000000"

definition year_10000 :: int where
  "year_10000 = 253402300800000000"

definition getTime :: "int \<Rightarrow> int option" where
  "getTime t = (if year_1 \<le> t \<and> t < year_10000 then Some (t div 1000) else None)"

text \<open>
  The decimal digits of a natural number, as a template literal prints an integer;
  \<open>digit\<close> is applied to numbers below 10 only.
\<close>

definition digit :: "nat \<Rightarrow> char" where
  "digit d = ''0123456789'' ! d"

function show_nat :: "nat \<Rightarrow> string" where
  "show_nat n = (if n < 10 then [digit n] else show_nat (n div 10) @ [digit (n mod 10)])"
  by pat_completeness auto
termination
  by (relation "measure (\<lambda>n. n)") auto

declare show_nat.simps [simp del]

text \<open>
  \<^verbatim>\<open>getDaysUntilShortage\<close> of the materials page (\<^verbatim>\<open>Materials\<close>); \<open>date_now\<close>
  is \<^verbatim>\<open>new Date().getTime()\<close>. The number is printed only when it is positive;
  with \<^verbatim>\<open>NaN\<close> for the time the number of days is \<^verbatim>\<open>NaN\<close> and the
  test \<^verbatim>\<open>days > 0\<close> is false.
\<close>

definition getDaysUntilShortage :: "int \<Rightarrow> material \<Rightarrow> string" where
  "getDaysUntilShortage date_now material =
     (case shortage_date material of
        None \<Rightarrow> ''N/A''
      | Some d \<Rightarrow>
          (case getTime d of
             None \<Rightarrow> ''Stock out''
           | Some ms \<Rightarrow>
               (let days = \<lfloor>(of_int (ms - date_now) :: rat) / (1000 * 60 * 60 * 24)\<rfloor>
                in if days > 0 then show_nat (nat days) @ '' days'' else ''Stock out'')))"

text \<open>
  \<^verbatim>\<open>getDaysUntilShortage\<close> of the reorder report (\<^verbatim>\<open>ReorderReport\<close>), of type
  \<^verbatim>\<open>number | null\<close>.
\<close>

definition getDaysUntilShortage_report :: "int \<Rightarrow> material \<Rightarrow> int option" where
  "getDaysUntilShortage_report date_now material =
     (case shortage_date material of
        None \<Rightarrow> None
      | Some d \<Rightarrow>
          (case getTime d of
             None \<Rightarrow> Some 0
           | Some ms \<Rightarrow>
               (let days = \<lfloor>(of_int (ms - date_now) :: rat) / (1000 * 60 * 60 * 24)\<rfloor>
                in Some (if days > 0 then days else 0))))"













text \<open>
  The query of \<^verbatim>\<open>fetchReorderMaterials\<close>:
  \<^verbatim>\<open>.or("status.eq.critical,status.eq.low").order("status")\<close>. The store answers
  with the rows whose status is one of the two, each once, sorted by status in the
  order of the enum. The status is the only sort key: the order of rows of equal status
  is the store's choice, so the query has many answers and \<open>reorder_answer db rows\<close>
  says that \<open>rows\<close> is one of them. The embedded supplier, read only by the e-mail
  button, is left out.
\<close>

definition reorder_answer :: "database \<Rightarrow> material list \<Rightarrow> bool" where
  "reorder_answer db rows \<longleftrightarrow>
     mset rows = mset (filter (\<lambda>m. status m = critical \<or> status m = low) (materials_tbl db)) \<and>
     sorted (map (\<lambda>m. enum_pos (status m)) rows)"

record toast =
  title :: string
  description :: string
  variant :: "string option"

definition error_toast :: "string \<Rightarrow> toast" where
  "error_toast msg = \<lparr>title = ''Error'', description = msg, variant = Some ''destructive''\<rparr>"

text \<open>
  \<^verbatim>\<open>fetchReorderMaterials\<close>: \<open>err\<close> is the error of the request, \<open>data\<close> the
  rows the store answered with, \<open>shown\<close> the list the report shows so far. The result
  is the list shown afterwards and the toasts.
\<close>

definition fetchReorderMaterials ::
  "string option \<Rightarrow> material list \<Rightarrow> material list \<Rightarrow> material list \<times> toast list" where
  "fetchReorderMaterials err data shown =
     (case err of
        Some msg \<Rightarrow> (shown, [error_toast msg])
      | None \<Rightarrow> (data, []))"

section \<open>The stock-update page\<close>

text \<open>
  The state of the component \<^verbatim>\<open>StockUpdates\<close> that \<^verbatim>\<open>handleSubmit\<close> reads
  and writes. \<open>reason_state\<close> and \<open>notes_state\<close> are the state variables
  \<^verbatim>\<open>reason\<close> and \<^verbatim>\<open>notes\<close>. The list of recent history rows is display
  only and left out.
\<close>

record page =
  materials :: "material_view list"
  selectedMaterial :: string
  quantityChange :: rat
  reason_state :: update_reason
  notes_state :: string

text \<open>
  What the outside world answers during one submit: the user of
  \<^verbatim>\<open>supabase.auth.getUser()\<close>, an error of either request that does not come
  from the tables themselves (network, expired session, policy), and \<^verbatim>\<open>NOW()\<close>.
\<close>

record env =
  auth_user :: "string option"
  update_error :: "string option"
  history_error :: "string option"
  time_now :: int

text \<open>
  \<^verbatim>\<open>supabase.from("materials").update({ current_quantity: q }).eq("id", mid)\<close>:
  every row with that id is rewritten, the trigger runs on it, and the constraint
  \<^verbatim>\<open>CHECK (current_quantity >= 0)\<close> is checked. A request that matches no row is
  not an error.
\<close>

definition update_current_quantity ::
  "env \<Rightarrow> string \<Rightarrow> rat \<Rightarrow> database \<Rightarrow> string option \<times> database" where
  "update_current_quantity e mid q db =
     (case update_error e of
        Some msg \<Rightarrow> (Some msg, db)
      | None \<Rightarrow>
          if q < 0 \<and> mid \<in> set (map id_col (materials_tbl db))
          then (Some ''violates check constraint materials_current_quantity_check'', db)
          else (None, db\<lparr>materials_tbl :=
                  map (\<lambda>r. if id_col r = mid
                            then update_material_status (time_now e) (r\<lparr>current_quantity := q\<rparr>)
                            else r)
                      (materials_tbl db)\<rparr>))"

text \<open>
  \<^verbatim>\<open>supabase.from("stock_history").insert([row])\<close>: the foreign key
  \<^verbatim>\<open>material_id REFERENCES public.materials(id)\<close> and the policy
  \<^verbatim>\<open>WITH CHECK (user_id = auth.uid())\<close> are checked, then the row is appended.
\<close>

definition insert_stock_history ::
  "env \<Rightarrow> stock_history \<Rightarrow> database \<Rightarrow> string option \<times> database" where
  "insert_stock_history e row db =
     (case history_error e of
        Some msg \<Rightarrow> (Some msg, db)
      | None \<Rightarrow>
          if material_id row \<notin> set (map id_col (materials_tbl db))
          then (Some ''violates foreign key constraint stock_history_material_id_fkey'', db)
          else if auth_user e \<noteq> Some (user_id row)
          then (Some ''new row violates row-level security policy'', db)
          else (None, db\<lparr>stock_history_tbl := stock_history_tbl db @ [row]\<rparr>))"

text \<open>
  \<^verbatim>\<open>fetchMaterials\<close> of the stock-update page:
  \<^verbatim>\<open>select("id, material_code, name, current_quantity, unit").order("material_code")\<close>.
\<close>

definition fetchMaterials :: "database \<Rightarrow> material_view list" where
  "fetchMaterials db = map material_view.truncate (sort_key material_code (materials_tbl db))"

text \<open>
  \<^verbatim>\<open>handleSubmit\<close>. The result is the database, the state of the page and the
  toasts shown. The two requests are sent one after the other, the insert only when the
  update returned no error. \<^verbatim>\<open>created_at\<close> of the new row is the column default
  \<^verbatim>\<open>NOW()\<close>.
\<close>

definition handleSubmit :: "env \<Rightarrow> page \<Rightarrow> database \<Rightarrow> database \<times> page \<times> toast list" where
  "handleSubmit e st db =
     (if selectedMaterial st = []
      then (db, st, [error_toast ''Please select a material''])
      else
        case find (\<lambda>m. id_col m = selectedMaterial st) (materials st) of
          None \<Rightarrow> (db, st, [])
        | Some material \<Rightarrow>
            (let newQuantity = current_quantity material + quantityChange st in
             if newQuantity < 0
             then (db, st, [error_toast ''Quantity cannot be negative''])
             else
               case auth_user e of
                 None \<Rightarrow> (db, st, [])
               | Some user \<Rightarrow>
                   (case update_current_quantity e (selectedMaterial st) newQuantity db of
                      (Some updateError, db1) \<Rightarrow> (db1, st, [error_toast updateError])
                    | (None, db1) \<Rightarrow>
                        (case insert_stock_history e
                                \<lparr>material_id = selectedMaterial st,
                                 user_id = user,
                                 quantity_before = current_quantity material,
                                 quantity_after = newQuantity,
                                 quantity_change = quantityChange st,
                                 reason = reason_state st,
                                 notes_col = (if notes_state st = [] then None
                                              else Some (notes_state st)),
                                 created_at = time_now e\<rparr> db1 of
                           (Some historyError, db2) \<Rightarrow> (db2, st, [error_toast historyError])
                         | (None, db2) \<Rightarrow>
                             (db2,
                              st\<lparr>selectedMaterial := [], quantityChange := 0,
                                 reason_state := purchase, notes_state := [],
                                 materials := fetchMaterials db2\<rparr>,
                              [\<lparr>title = ''Success'',
                                description = ''Stock updated successfully'',
                                variant = None\<rparr>])))))"


section \<open>Sample data\<close>

text \<open>
  Five rows of the migration's \<^verbatim>\<open>INSERT INTO public.materials\<close> as it states
  them, with keys chosen here; \<open>sample_db\<close> is a table of four of them after the
  trigger ran on each at time 0, in the order of the insert.
\<close>

definition sample_row :: "string \<Rightarrow> string \<Rightarrow> string \<Rightarrow> string \<Rightarrow> rat \<Rightarrow> rat \<Rightarrow> rat \<Rightarrow> rat \<Rightarrow> int \<Rightarrow> material" where
  "sample_row i code nm u q rp ss usage lt =
     \<lparr>id_col = i, material_code = code, name = nm, current_quantity = q, unit = u,
      supplier_id = None, warehouse_id = None, reorder_point = rp, safety_stock = ss,
      avg_daily_usage = Some usage, lead_time_days = Some lt, status = safe,
      shortage_date = None, updated_at = 0\<rparr>"

definition STL_001 :: material where
  "STL_001 = sample_row ''m1'' ''STL-001'' ''Cold Rolled Steel Sheet'' ''kg'' 450 500 200 50 7"

definition CHM_003 :: material where
  "CHM_003 = sample_row ''m3'' ''CHM-003'' ''Industrial Adhesive'' ''liters'' 85 150 75 25 10"

definition ELC_004 :: material where
  "ELC_004 = sample_row ''m4'' ''ELC-004'' ''Circuit Boards'' ''pcs'' 1200 500 200 80 14"


definition PLS_007 :: material where
  "PLS_007 = sample_row ''m7'' ''PLS-007'' ''Polycarbonate Sheets'' ''sheets'' 95 200 100 35 5"

definition sample_db :: database where
  "sample_db =
     \<lparr>materials_tbl = map (update_material_status 0) [STL_001, CHM_003, ELC_004, PLS_007],
      stock_history_tbl = []\<rparr>"

text \<open>
  Answers of the outside world: everything works; the history insert fails on the
  network; nobody is signed in.
\<close>

definition env_ok :: env where
  "env_ok = \<lparr>auth_user = Some ''u1'', update_error = None, history_error = None, time_now = 1000\<rparr>"

definition env_insert_fails :: env where
  "env_insert_fails = env_ok\<lparr>history_error := Some ''Failed to fetch''\<rparr>"

definition env_signed_out :: env where
  "env_signed_out = env_ok\<lparr>auth_user := None\<rparr>"

text \<open>
  The page after loading \<open>sample_db\<close>, with STL-001 selected and a production use of
  \<open>amount\<close> entered.
\<close>

definition page_use :: "rat \<Rightarrow> page" where
  "page_use amount =
     \<lparr>materials = fetchMaterials sample_db, selectedMaterial = ''m1'',
      quantityChange = - amount, reason_state = production_use, notes_state = []\<rparr>"

section \<open>Auxiliary notions\<close>

text \<open>
  The severity of a state, \<open>critical > low > safe\<close>: the reverse of the enum's order.
\<close>

definition severity :: "stock_status \<Rightarrow> nat" where
  "severity s = 2 - enum_pos s"

text \<open>The object literal \<^verbatim>\<open>handleSubmit\<close> passes to the insert, by name.\<close>

definition history_row :: "env \<Rightarrow> page \<Rightarrow> string \<Rightarrow> material_view \<Rightarrow> stock_history" where
  "history_row e st user material =
     \<lparr>material_id = selectedMaterial st,
      user_id = user,
      quantity_before = current_quantity material,
      quantity_after = current_quantity material + quantityChange st,
      quantity_change = quantityChange st,
      reason = reason_state st,
      notes_col = (if notes_state st = [] then None else Some (notes_state st)),
      created_at = time_now e\<rparr>"

section \<open>Properties of the trigger\<close>

lemma update_material_status_fields:
  "current_quantity (update_material_status now NEW) = current_quantity NEW"
  "id_col (update_material_status now NEW) = id_col NEW"
  "safety_stock (update_material_status now NEW) = safety_stock NEW"
  "reorder_point (update_material_status now NEW) = reorder_point NEW"
  by (simp_all add: update_material_status_def Let_def split: option.splits)

lemma status_update_material_status:
  "status (update_material_status now NEW) =
     (if current_quantity NEW \<le> safety_stock NEW then critical
      else if current_quantity NEW \<le> reorder_point NEW then low
      else safe)"
  by (simp add: update_material_status_def Let_def split: option.splits)

text \<open>
  C1. The status the trigger derives is \<open>critical\<close> when the current quantity is at
  most the safety stock, whatever the reorder point is; otherwise \<open>low\<close> when the
  current quantity is at most the reorder point; otherwise \<open>safe\<close>. A quantity equal
  to a threshold gets the more severe state.
\<close>

theorem deriveStatus_cases:
  "status (update_material_status now
      (NEW\<lparr>current_quantity := q, safety_stock := s, reorder_point := r\<rparr>)) =
     (if q \<le> s then critical else if q \<le> r then low else safe)"
  by (simp add: status_update_material_status)

text \<open>
  C10. With the safety stock and the reorder point fixed, the derived status is monotone
  in the current quantity: the smaller quantity never gets the less severe state.
\<close>

theorem deriveStatus_monotone:
  "q1 \<le> q2 \<Longrightarrow>
   severity (status (update_material_status now2 (NEW\<lparr>current_quantity := q2\<rparr>)))
     \<le> severity (status (update_material_status now1 (NEW\<lparr>current_quantity := q1\<rparr>)))"
  by (simp add: status_update_material_status severity_def)

text \<open>C10 at STL-001: 400 kg is \<open>low\<close> like 450 kg, and 150 kg is \<open>critical\<close>.\<close>

theorem deriveStatus_monotone_witness:
  "(150::rat) \<le> 450 \<and>
   severity (status (update_material_status 0 (STL_001\<lparr>current_quantity := 450\<rparr>)))
     \<le> severity (status (update_material_status 0 (STL_001\<lparr>current_quantity := 150\<rparr>))) \<and>
   status (update_material_status 0 (STL_001\<lparr>current_quantity := 150\<rparr>)) = critical \<and>
   status (update_material_status 0 (STL_001\<lparr>current_quantity := 450\<rparr>)) = low"
  using deriveStatus_monotone
    [where ?q1.0 = 150 and ?q2.0 = 450 and NEW = STL_001 and ?now1.0 = 0 and ?now2.0 = 0]
  by (simp add: status_update_material_status STL_001_def sample_row_def)

lemma days_interval_near:
  "\<bar>of_int (days_interval x) - x * of_int usecs_per_day\<bar> \<le> (1/2 :: rat)"
  unfolding days_interval_def by (rule of_int_round_abs_le)

text \<open>
  C5, as the trigger computes it. The shortage date is \<^verbatim>\<open>NULL\<close> when the average
  daily usage is \<^verbatim>\<open>NULL\<close> or at most 0. Otherwise, for a quantity that is not
  negative and lasts less than \<open>10\<^sup>8\<close> days, at a time \<open>now\<close> within \<open>10\<^sup>1\<^sup>7\<close>
  microseconds after the epoch, it is \<open>now\<close> plus
  \<open>current_quantity / avg_daily_usage\<close> days with the fraction of a day kept: the
  interval added is within a microsecond of the quotient, not cut down to whole days.
  In that range the database's division keeps at least twelve decimals of the quotient
  and neither the interval nor the timestamp leaves its range; the bound of a
  microsecond covers the rounding of the division and of the interval.
\<close>

theorem deriveShortageDate_fraction_kept:
  "(case avg_daily_usage NEW of
      None \<Rightarrow> shortage_date (update_material_status now NEW) = None
    | Some usage \<Rightarrow>
        if usage \<le> 0 then shortage_date (update_material_status now NEW) = None
        else (0 \<le> current_quantity NEW \<and> current_quantity NEW / usage < 100000000 \<and>
              0 \<le> now \<and> now \<le> 100000000000000000 \<longrightarrow>
              (\<exists>t. shortage_date (update_material_status now NEW) = Some (now + t) \<and>
                   \<bar>of_int t - current_quantity NEW / usage * 86400000000\<bar> \<le> (1 :: rat))))"
proof -
  have near: "\<bar>of_int (days_interval (q / u)) - q / u * 86400000000\<bar> \<le> (1 :: rat)" for q u
    using days_interval_near [of "q / u"] by (simp add: usecs_per_day_def)
  show ?thesis
  proof (cases "avg_daily_usage NEW")
    case None
    then show ?thesis by (simp add: update_material_status_def Let_def)
  next
    case (Some usage)
    show ?thesis
    proof (cases "usage \<le> 0")
      case True
      with Some show ?thesis by (simp add: update_material_status_def Let_def)
    next
      case False
      with Some have "shortage_date (update_material_status now NEW) =
          Some (now + days_interval (current_quantity NEW / usage))"
        by (simp add: update_material_status_def Let_def)
      with near [of "current_quantity NEW" usage] Some False show ?thesis
        by (simp del: times_divide_eq_left times_divide_eq_right)
    qed
  qed
qed

text \<open>
  C5 at PLS-007 (95 sheets, 35 a day): 2 days 17:08:34.285714 from time 0.
\<close>

theorem deriveShortageDate_fraction_kept_witness:
  "avg_daily_usage PLS_007 = Some 35 \<and> (0 :: rat) < 35 \<and>
   0 \<le> current_quantity PLS_007 \<and> current_quantity PLS_007 / 35 < 100000000 \<and>
   shortage_date (update_material_status 0 PLS_007) = Some 234514285714 \<and>
   (\<exists>t. shortage_date (update_material_status 0 PLS_007) = Some (0 + t) \<and>
        \<bar>of_int t - current_quantity PLS_007 / 35 * 86400000000\<bar> \<le> (1 :: rat))"
proof -
  have v: "shortage_date (update_material_status 0 PLS_007) = Some 234514285714"
    by (simp add: PLS_007_def sample_row_def update_material_status_def Let_def
          days_interval_def usecs_per_day_def round_def floor_eq_iff)
  have a: "avg_daily_usage PLS_007 = Some 35" "current_quantity PLS_007 = 95"
    by (simp_all add: PLS_007_def sample_row_def)
  from deriveShortageDate_fraction_kept [where NEW = PLS_007 and now = 0] a v
  show ?thesis by simp
qed

text \<open>
  C5 as claimed fails at CHM-003 (85 liters, 25 a day): the trigger gives 3 days 09:36:00
  from time 0, whereas \<open>\<lfloor>85 / 25\<rfloor> = 3\<close> whole days are 259200000000 microseconds.
\<close>

theorem deriveShortageDate_counterexample:
  "shortage_date (update_material_status 0 CHM_003) = Some 293760000000 \<and>
   0 + \<lfloor>current_quantity CHM_003 / the (avg_daily_usage CHM_003)\<rfloor> * usecs_per_day
     = 259200000000"
  by (simp add: update_material_status_def CHM_003_def sample_row_def Let_def
        days_interval_def usecs_per_day_def floor_eq_iff)

section \<open>Properties of the pages' arithmetic\<close>









lemma floor_ms_div:
  "\<lfloor>(of_int a :: rat) / (1000 * 60 * 60 * 24)\<rfloor> = a div 86400000"
proof -
  have "(1000 * 60 * 60 * 24 :: rat) = of_int 86400000" by simp
  then show ?thesis by (simp only: floor_divide_of_int_eq)
qed

text \<open>
  C8, as the two pages compute it. For a shortage date the page can read (years 1 to
  9999), let \<open>d = \<lfloor>(shortage date - now) / 1 day\<rfloor>\<close> in milliseconds. The reorder
  report returns \<^verbatim>\<open>null\<close> without a shortage date and otherwise the number
  \<open>max 0 d\<close>: a result at or below 0 is the number 0. The materials page returns the
  text "N/A" without a shortage date, the text "d days" when \<open>d > 0\<close>, and the text
  "Stock out" otherwise. A shortage date the page cannot read gives the number 0 on
  the report and "Stock out" on the materials page.
\<close>

theorem daysUntilShortage_both:
  "getDaysUntilShortage_report date_now m =
     (case shortage_date m of
        None \<Rightarrow> None
      | Some t \<Rightarrow>
          if year_1 \<le> t \<and> t < year_10000
          then Some (max 0 ((t div 1000 - date_now) div 86400000))
          else Some 0) \<and>
   getDaysUntilShortage date_now m =
     (case shortage_date m of
        None \<Rightarrow> ''N/A''
      | Some t \<Rightarrow>
          if year_1 \<le> t \<and> t < year_10000 \<and> 0 < (t div 1000 - date_now) div 86400000
          then show_nat (nat ((t div 1000 - date_now) div 86400000)) @ '' days''
          else ''Stock out'')"
  unfolding getDaysUntilShortage_report_def getDaysUntilShortage_def getTime_def floor_ms_div
  by (simp add: Let_def max_def split: option.splits)

text \<open>
  C8 as claimed fails on the reorder report: a shortage date three days in the past
  (\<open>d = - 3\<close>) is reported as the number 0, which the report prints as "0 days".
\<close>

theorem daysUntilShortage_counterexample:
  "getTime 0 = Some 0 \<and>
   (0 - 259200000) div 86400000 = (- 3 :: int) \<and>
   getDaysUntilShortage_report 259200000 (CHM_003\<lparr>shortage_date := Some 0\<rparr>) = Some 0"
  by (simp add: getDaysUntilShortage_report_def getTime_def year_1_def year_10000_def Let_def)

section \<open>Properties of the reorder query\<close>

lemma two_tiers:
  "sorted (map (\<lambda>m. enum_pos (status m)) rows) \<Longrightarrow>
   \<forall>m\<in>set rows. status m = critical \<or> status m = low \<Longrightarrow>
   rows = filter (\<lambda>m. status m = critical) rows @ filter (\<lambda>m. status m = low) rows"
proof (induction rows)
  case Nil
  then show ?case by simp
next
  case (Cons x xs)
  then have IH: "xs = filter (\<lambda>m. status m = critical) xs @ filter (\<lambda>m. status m = low) xs"
    by simp
  from Cons.prems have "status x = critical \<or> status x = low" by simp
  then show ?case
  proof
    assume "status x = critical"
    with IH show ?thesis by simp
  next
    assume l: "status x = low"
    have all_low: "\<forall>m\<in>set xs. status m = low"
    proof
      fix m assume m: "m \<in> set xs"
      with Cons.prems(1) l have "1 \<le> enum_pos (status m)" by auto
      moreover from Cons.prems(2) m have "status m = critical \<or> status m = low" by simp
      ultimately show "status m = low" by auto
    qed
    then have "filter (\<lambda>m. status m = critical) xs = []" "filter (\<lambda>m. status m = low) xs = xs"
      by (auto simp add: filter_empty_conv filter_id_conv)
    with l show ?thesis by simp
  qed
qed

lemma tier_sorted:
  "sorted (map (\<lambda>m. enum_pos (status m)) (filter (\<lambda>m. status m = c) xs))"
  by (induction xs) auto

lemma tiers_sorted:
  "sorted (map (\<lambda>m. enum_pos (status m))
     (filter (\<lambda>m. status m = critical) xs @ filter (\<lambda>m. status m = low) xs))"
  by (auto simp add: sorted_append tier_sorted)

lemma tiers_mset:
  "mset (filter (\<lambda>m. status m = critical) xs @ filter (\<lambda>m. status m = low) xs) =
   filter_mset (\<lambda>m. status m = critical \<or> status m = low) (mset xs)"
  by (induction xs) auto

text \<open>
  C7, as the report queries it. Whatever the store answers, a successful fetch shows
  exactly the materials whose status is \<open>critical\<close> or \<open>low\<close>, each as often as the
  table holds it and none that is \<open>safe\<close>, with every critical material before every
  low one: the list is its critical members followed by its low members. The order
  inside a tier is not by material code: the query sorts by status only, and for every
  arrangement of the table its critical rows followed by its low rows are an answer.
\<close>

theorem selectForReorder_tiers:
  "(reorder_answer db data \<longrightarrow>
      mset (fst (fetchReorderMaterials None data shown)) =
        mset (filter (\<lambda>m. status m = critical \<or> status m = low) (materials_tbl db)) \<and>
      fst (fetchReorderMaterials None data shown) =
        filter (\<lambda>m. status m = critical) (fst (fetchReorderMaterials None data shown)) @
        filter (\<lambda>m. status m = low) (fst (fetchReorderMaterials None data shown))) \<and>
   (mset xs = mset (materials_tbl db) \<longrightarrow>
      reorder_answer db
        (filter (\<lambda>m. status m = critical) xs @ filter (\<lambda>m. status m = low) xs))"
proof (intro conjI impI)
  assume a: "reorder_answer db data"
  have f: "fst (fetchReorderMaterials None data shown) = data"
    by (simp add: fetchReorderMaterials_def)
  from a show "mset (fst (fetchReorderMaterials None data shown)) =
        mset (filter (\<lambda>m. status m = critical \<or> status m = low) (materials_tbl db))"
    unfolding f by (simp add: reorder_answer_def)
  from a have "set data = set (filter (\<lambda>m. status m = critical \<or> status m = low) (materials_tbl db))"
    unfolding reorder_answer_def by (metis mset_eq_setD)
  then have "\<forall>m\<in>set data. status m = critical \<or> status m = low" by simp
  with a show "fst (fetchReorderMaterials None data shown) =
        filter (\<lambda>m. status m = critical) (fst (fetchReorderMaterials None data shown)) @
        filter (\<lambda>m. status m = low) (fst (fetchReorderMaterials None data shown))"
    unfolding f reorder_answer_def by (intro two_tiers) simp_all
next
  assume "mset xs = mset (materials_tbl db)"
  then have "filter_mset (\<lambda>m. status m = critical \<or> status m = low) (mset xs) =
             filter_mset (\<lambda>m. status m = critical \<or> status m = low) (mset (materials_tbl db))"
    by simp
  then show "reorder_answer db
        (filter (\<lambda>m. status m = critical) xs @ filter (\<lambda>m. status m = low) xs)"
    unfolding reorder_answer_def by (simp only: tiers_mset tiers_sorted mset_filter simp_thms)
qed

lemma sample_statuses:
  "status (update_material_status 0 STL_001) = low"
  "status (update_material_status 0 CHM_003) = low"
  "status (update_material_status 0 ELC_004) = safe"
  "status (update_material_status 0 PLS_007) = critical"
  by (simp_all add: status_update_material_status STL_001_def CHM_003_def ELC_004_def
        PLS_007_def sample_row_def)

lemma sample_codes:
  "material_code (update_material_status 0 STL_001) = ''STL-001''"
  "material_code (update_material_status 0 CHM_003) = ''CHM-003''"
  "material_code (update_material_status 0 PLS_007) = ''PLS-007''"
  by (simp_all add: update_material_status_def Let_def STL_001_def CHM_003_def
        PLS_007_def sample_row_def)

text \<open>
  C7 on the sample table, in the order of the insert and in another arrangement: both
  lists are answers of the query.
\<close>

theorem selectForReorder_tiers_witness:
  "mset [STL_001, CHM_003, ELC_004, PLS_007] = mset [CHM_003, PLS_007, ELC_004, STL_001] \<and>
   reorder_answer sample_db
     (map (update_material_status 0) [PLS_007, STL_001, CHM_003]) \<and>
   reorder_answer sample_db
     (map (update_material_status 0) [PLS_007, CHM_003, STL_001])"
proof -
  have 1: "mset (map (update_material_status 0) [STL_001, CHM_003, ELC_004, PLS_007]) =
           mset (materials_tbl sample_db)"
    by (simp add: sample_db_def)
  have 2: "mset (map (update_material_status 0) [CHM_003, PLS_007, ELC_004, STL_001]) =
           mset (materials_tbl sample_db)"
    by (simp add: sample_db_def)
  from selectForReorder_tiers
         [where db = sample_db and data = "[]" and shown = "[]"
            and xs = "map (update_material_status 0) [STL_001, CHM_003, ELC_004, PLS_007]"]
       selectForReorder_tiers
         [where db = sample_db and data = "[]" and shown = "[]"
            and xs = "map (update_material_status 0) [CHM_003, PLS_007, ELC_004, STL_001]"]
       1 2
  show ?thesis by (simp add: sample_statuses)
qed

text \<open>
  C7 as claimed fails on the sample table: the list PLS-007, STL-001, CHM-003 is an
  answer of the query, and its low tier is not in the order of the codes.
\<close>

theorem selectForReorder_counterexample:
  "reorder_answer sample_db (map (update_material_status 0) [PLS_007, STL_001, CHM_003]) \<and>
   map material_code
     (filter (\<lambda>m. status m = low)
        (fst (fetchReorderMaterials None
                (map (update_material_status 0) [PLS_007, STL_001, CHM_003]) []))) =
     [''STL-001'', ''CHM-003''] \<and>
   \<not> sorted [''STL-001'', ''CHM-003'']"
  by (simp add: reorder_answer_def fetchReorderMaterials_def sample_db_def sample_statuses
        sample_codes)

section \<open>Properties of the stock update\<close>

lemma update_current_quantity_error:
  "update_current_quantity e mid q db = (Some msg, db1) \<Longrightarrow> db1 = db"
  by (auto simp add: update_current_quantity_def split: option.splits if_splits)

lemma update_current_quantity_ok:
  "update_current_quantity e mid q db = (None, db1) \<Longrightarrow>
   update_error e = None \<and>
   stock_history_tbl db1 = stock_history_tbl db \<and>
   materials_tbl db1 =
     map (\<lambda>r. if id_col r = mid
               then update_material_status (time_now e) (r\<lparr>current_quantity := q\<rparr>)
               else r) (materials_tbl db)"
  by (auto simp add: update_current_quantity_def split: option.splits if_splits)

lemma updated_row_quantity:
  assumes "r \<in> set (map (\<lambda>r. if id_col r = mid
               then update_material_status t (r\<lparr>current_quantity := q\<rparr>)
               else r) xs)"
    and "id_col r = mid"
  shows "current_quantity r = q"
proof -
  from assms(1) obtain x where
    r: "r = (if id_col x = mid then update_material_status t (x\<lparr>current_quantity := q\<rparr>) else x)"
    by (auto simp only: set_map)
  show ?thesis
  proof (cases "id_col x = mid")
    case True
    with r show ?thesis by (simp add: update_material_status_fields)
  next
    case False
    with r assms(2) show ?thesis by simp
  qed
qed

lemma insert_stock_history_error:
  "insert_stock_history e row db = (Some msg, db1) \<Longrightarrow> db1 = db"
  by (auto simp add: insert_stock_history_def split: option.splits if_splits)

lemma insert_stock_history_ok:
  "insert_stock_history e row db = (None, db1) \<Longrightarrow>
   history_error e = None \<and>
   material_id row \<in> set (map id_col (materials_tbl db)) \<and>
   materials_tbl db1 = materials_tbl db \<and>
   stock_history_tbl db1 = stock_history_tbl db @ [row]"
  by (auto simp add: insert_stock_history_def split: option.splits if_splits)

lemma handleSubmit_no_selection:
  "selectedMaterial st = [] \<Longrightarrow>
   handleSubmit e st db = (db, st, [error_toast ''Please select a material''])"
  by (simp add: handleSubmit_def)

lemma handleSubmit_not_found:
  "selectedMaterial st \<noteq> [] \<Longrightarrow>
   find (\<lambda>m. id_col m = selectedMaterial st) (materials st) = None \<Longrightarrow>
   handleSubmit e st db = (db, st, [])"
  by (simp add: handleSubmit_def)

lemma handleSubmit_negative:
  "selectedMaterial st \<noteq> [] \<Longrightarrow>
   find (\<lambda>m. id_col m = selectedMaterial st) (materials st) = Some material \<Longrightarrow>
   current_quantity material + quantityChange st < 0 \<Longrightarrow>
   handleSubmit e st db = (db, st, [error_toast ''Quantity cannot be negative''])"
  by (simp add: handleSubmit_def Let_def)

lemma handleSubmit_no_user:
  "selectedMaterial st \<noteq> [] \<Longrightarrow>
   find (\<lambda>m. id_col m = selectedMaterial st) (materials st) = Some material \<Longrightarrow>
   0 \<le> current_quantity material + quantityChange st \<Longrightarrow>
   auth_user e = None \<Longrightarrow>
   handleSubmit e st db = (db, st, [])"
  by (simp add: handleSubmit_def Let_def)

lemma handleSubmit_update_error:
  "selectedMaterial st \<noteq> [] \<Longrightarrow>
   find (\<lambda>m. id_col m = selectedMaterial st) (materials st) = Some material \<Longrightarrow>
   0 \<le> current_quantity material + quantityChange st \<Longrightarrow>
   auth_user e = Some user \<Longrightarrow>
   update_current_quantity e (selectedMaterial st)
     (current_quantity material + quantityChange st) db = (Some msg, db1) \<Longrightarrow>
   handleSubmit e st db = (db1, st, [error_toast msg])"
  by (simp add: handleSubmit_def Let_def)

lemma handleSubmit_insert_error:
  "selectedMaterial st \<noteq> [] \<Longrightarrow>
   find (\<lambda>m. id_col m = selectedMaterial st) (materials st) = Some material \<Longrightarrow>
   0 \<le> current_quantity material + quantityChange st \<Longrightarrow>
   auth_user e = Some user \<Longrightarrow>
   update_current_quantity e (selectedMaterial st)
     (current_quantity material + quantityChange st) db = (None, db1) \<Longrightarrow>
   insert_stock_history e (history_row e st user material) db1 = (Some msg, db2) \<Longrightarrow>
   handleSubmit e st db = (db2, st, [error_toast msg])"
  by (simp add: handleSubmit_def Let_def history_row_def)

lemma handleSubmit_success:
  "selectedMaterial st \<noteq> [] \<Longrightarrow>
   find (\<lambda>m. id_col m = selectedMaterial st) (materials st) = Some material \<Longrightarrow>
   0 \<le> current_quantity material + quantityChange st \<Longrightarrow>
   auth_user e = Some user \<Longrightarrow>
   update_current_quantity e (selectedMaterial st)
     (current_quantity material + quantityChange st) db = (None, db1) \<Longrightarrow>
   insert_stock_history e (history_row e st user material) db1 = (None, db2) \<Longrightarrow>
   fst (handleSubmit e st db) = db2"
  by (simp add: handleSubmit_def Let_def history_row_def)

lemma handleSubmit_elim [consumes 1, case_names unchanged update_only both]:
  assumes run: "handleSubmit e st db = (db', st', ts)"
  obtains
    (unchanged) "db' = db"
  | (update_only) material user msg where
      "selectedMaterial st \<noteq> []"
      "find (\<lambda>m. id_col m = selectedMaterial st) (materials st) = Some material"
      "0 \<le> current_quantity material + quantityChange st"
      "auth_user e = Some user"
      "update_current_quantity e (selectedMaterial st)
         (current_quantity material + quantityChange st) db = (None, db')"
      "insert_stock_history e (history_row e st user material) db' = (Some msg, db')"
      "ts = [error_toast msg]"
  | (both) material user db1 where
      "selectedMaterial st \<noteq> []"
      "find (\<lambda>m. id_col m = selectedMaterial st) (materials st) = Some material"
      "0 \<le> current_quantity material + quantityChange st"
      "auth_user e = Some user"
      "update_current_quantity e (selectedMaterial st)
         (current_quantity material + quantityChange st) db = (None, db1)"
      "insert_stock_history e (history_row e st user material) db1 = (None, db')"
proof (cases "selectedMaterial st = []")
  case True
  from handleSubmit_no_selection [OF True, of e db] run have "db' = db" by simp
  then show ?thesis by (rule unchanged)
next
  case sel: False
  show ?thesis
  proof (cases "find (\<lambda>m. id_col m = selectedMaterial st) (materials st)")
    case None
    from handleSubmit_not_found [OF sel None, of e db] run have "db' = db" by simp
    then show ?thesis by (rule unchanged)
  next
    case (Some material)
    show ?thesis
    proof (cases "current_quantity material + quantityChange st < 0")
      case True
      from handleSubmit_negative [OF sel Some True, of e db] run have "db' = db" by simp
      then show ?thesis by (rule unchanged)
    next
      case False
      then have nonneg: "0 \<le> current_quantity material + quantityChange st" by simp
      show ?thesis
      proof (cases "auth_user e")
        case None
        from handleSubmit_no_user [OF sel Some nonneg None, of db] run have "db' = db" by simp
        then show ?thesis by (rule unchanged)
      next
        case user: (Some user)
        obtain err db1 where
          upd: "update_current_quantity e (selectedMaterial st)
                  (current_quantity material + quantityChange st) db = (err, db1)"
          by (cases "update_current_quantity e (selectedMaterial st)
                  (current_quantity material + quantityChange st) db")
        show ?thesis
        proof (cases err)
          case (Some msg)
          with upd have upd': "update_current_quantity e (selectedMaterial st)
                  (current_quantity material + quantityChange st) db = (Some msg, db1)" by simp
          from handleSubmit_update_error [OF sel \<open>find _ _ = Some material\<close> nonneg user upd'] run
          have "db' = db1" by simp
          with update_current_quantity_error [OF upd'] have "db' = db" by simp
          then show ?thesis by (rule unchanged)
        next
          case None
          with upd have upd': "update_current_quantity e (selectedMaterial st)
                  (current_quantity material + quantityChange st) db = (None, db1)" by simp
          obtain err2 db2 where
            ins: "insert_stock_history e (history_row e st user material) db1 = (err2, db2)"
            by (cases "insert_stock_history e (history_row e st user material) db1")
          show ?thesis
          proof (cases err2)
            case (Some msg)
            with ins have ins': "insert_stock_history e (history_row e st user material) db1 = (Some msg, db2)"
              by simp
            from handleSubmit_insert_error [OF sel \<open>find _ _ = Some material\<close> nonneg user upd' ins'] run
            have r: "db' = db2" "ts = [error_toast msg]" by simp_all
            from insert_stock_history_error [OF ins'] have "db2 = db1" .
            with r have d: "db' = db1" by simp
            show ?thesis
              using sel \<open>find _ _ = Some material\<close> nonneg user upd' ins' r(2)
              unfolding \<open>db2 = db1\<close> d [symmetric]
              by (rule update_only)
          next
            case None
            with ins have ins': "insert_stock_history e (history_row e st user material) db1 = (None, db2)"
              by simp
            from handleSubmit_success [OF sel \<open>find _ _ = Some material\<close> nonneg user upd' ins'] run
            have "db' = db2" by simp
            with ins' have "insert_stock_history e (history_row e st user material) db1 = (None, db')"
              by simp
            with sel \<open>find _ _ = Some material\<close> nonneg user upd' show ?thesis by (rule both)
          qed
        qed
      qed
    qed
  qed
qed

lemma sample_materials:
  "fetchMaterials sample_db =
     map material_view.truncate [CHM_003, ELC_004, PLS_007, STL_001]"
  by (simp add: fetchMaterials_def sample_db_def STL_001_def CHM_003_def ELC_004_def PLS_007_def sample_row_def update_material_status_def Let_def material_view.truncate_def material.defs material_view.defs)

lemma sample_find:
  "find (\<lambda>m. id_col m = selectedMaterial (page_use a)) (materials (page_use a)) =
     Some (material_view.truncate STL_001)"
  by (simp add: page_use_def sample_materials STL_001_def CHM_003_def ELC_004_def PLS_007_def
        sample_row_def material_view.truncate_def material.defs material_view.defs)

lemma sample_quantity: "current_quantity (material_view.truncate STL_001) = 450"
  by (simp add: STL_001_def sample_row_def material_view.truncate_def material.defs material_view.defs)

lemma sample_run:
  "fst (handleSubmit env_ok (page_use 50) sample_db) =
     \<lparr>materials_tbl = map (\<lambda>r. if id_col r = ''m1''
               then update_material_status 1000 (r\<lparr>current_quantity := 400\<rparr>)
               else r) (materials_tbl sample_db),
      stock_history_tbl = [history_row env_ok (page_use 50) ''u1'' (material_view.truncate STL_001)]\<rparr>"
proof (rule handleSubmit_success)
  show "selectedMaterial (page_use 50) \<noteq> []" by (simp add: page_use_def)
  show "find (\<lambda>m. id_col m = selectedMaterial (page_use 50)) (materials (page_use 50)) =
     Some (material_view.truncate STL_001)" by (rule sample_find)
  show "0 \<le> current_quantity (material_view.truncate STL_001) + quantityChange (page_use 50)"
    by (simp add: sample_quantity page_use_def)
  show "auth_user env_ok = Some ''u1''" by (simp add: env_ok_def)
  show "update_current_quantity env_ok (selectedMaterial (page_use 50))
     (current_quantity (material_view.truncate STL_001) + quantityChange (page_use 50)) sample_db =
     (None, sample_db\<lparr>materials_tbl := map (\<lambda>r. if id_col r = ''m1''
               then update_material_status 1000 (r\<lparr>current_quantity := 400\<rparr>)
               else r) (materials_tbl sample_db)\<rparr>)"
    by (simp add: update_current_quantity_def env_ok_def sample_quantity page_use_def)
  show "insert_stock_history env_ok (history_row env_ok (page_use 50) ''u1'' (material_view.truncate STL_001))
     (sample_db\<lparr>materials_tbl := map (\<lambda>r. if id_col r = ''m1''
               then update_material_status 1000 (r\<lparr>current_quantity := 400\<rparr>)
               else r) (materials_tbl sample_db)\<rparr>) =
     (None, \<lparr>materials_tbl = map (\<lambda>r. if id_col r = ''m1''
               then update_material_status 1000 (r\<lparr>current_quantity := 400\<rparr>)
               else r) (materials_tbl sample_db),
      stock_history_tbl = [history_row env_ok (page_use 50) ''u1'' (material_view.truncate STL_001)]\<rparr>)"
    by (simp add: insert_stock_history_def env_ok_def history_row_def page_use_def sample_db_def STL_001_def
          CHM_003_def ELC_004_def PLS_007_def sample_row_def update_material_status_def Let_def)
qed

text \<open>
  C3. When a material is selected and its quantity plus the entered change is negative,
  \<^verbatim>\<open>handleSubmit\<close> shows the error "Quantity cannot be negative" and nothing
  else happens: no request is sent, the database and the state of the page stay as they
  were.
\<close>

theorem applyAdjustment_rejects_negative:
  assumes "selectedMaterial st \<noteq> []"
    and "find (\<lambda>m. id_col m = selectedMaterial st) (materials st) = Some material"
    and "current_quantity material + quantityChange st < 0"
  shows "handleSubmit e st db = (db, st, [error_toast ''Quantity cannot be negative''])"
  using assms by (rule handleSubmit_negative)

theorem applyAdjustment_rejects_negative_witness:
  "handleSubmit env_ok (page_use 500) sample_db =
     (sample_db, page_use 500, [error_toast ''Quantity cannot be negative''])"
proof (rule applyAdjustment_rejects_negative)
  show "selectedMaterial (page_use 500) \<noteq> []" by (simp add: page_use_def)
  show "find (\<lambda>m. id_col m = selectedMaterial (page_use 500)) (materials (page_use 500)) =
     Some (material_view.truncate STL_001)" by (rule sample_find)
  show "current_quantity (material_view.truncate STL_001) + quantityChange (page_use 500) < 0"
    by (simp add: sample_quantity page_use_def)
qed





text \<open>
  C2, as \<^verbatim>\<open>handleSubmit\<close> does it. The material update is committed first and the
  history insert is sent only after the update returned no error. So a failed update
  writes nothing, and a history row is added only together with its quantity: every
  stored row of that material then has the row's \<open>quantity_after\<close>. When the
  insert fails after the update, the new quantity stays with no history row, and the
  error of the insert is shown.
\<close>

theorem update_then_insert:
  assumes run: "handleSubmit e st db = (db', st', ts)"
  shows "(update_error e \<noteq> None \<longrightarrow> db' = db) \<and>
         (stock_history_tbl db' = stock_history_tbl db \<or>
          (\<exists>row. stock_history_tbl db' = stock_history_tbl db @ [row] \<and>
                 material_id row \<in> set (map id_col (materials_tbl db')) \<and>
                 (\<forall>r\<in>set (materials_tbl db').
                    id_col r = material_id row \<longrightarrow> current_quantity r = quantity_after row))) \<and>
         (materials_tbl db' \<noteq> materials_tbl db \<and> history_error e \<noteq> None \<longrightarrow>
            stock_history_tbl db' = stock_history_tbl db \<and>
            (\<exists>msg. history_error e = Some msg \<and> ts = [error_toast msg]))"
  using run
proof (cases rule: handleSubmit_elim)
  case unchanged
  then show ?thesis by simp
next
  case (update_only material user msg)
  note upd = update_current_quantity_ok [OF update_only(5)]
  from update_only(6) have "history_error e = None \<or> history_error e = Some msg"
    by (auto simp add: insert_stock_history_def split: option.splits if_splits)
  with upd update_only(7) show ?thesis by auto
next
  case (both material user db1)
  note upd = update_current_quantity_ok [OF both(5)]
  note ins = insert_stock_history_ok [OF both(6)]
  let ?row = "history_row e st user material"
  have 1: "stock_history_tbl db' = stock_history_tbl db @ [?row]"
    using upd ins by simp
  have 2: "material_id ?row \<in> set (map id_col (materials_tbl db'))"
    using ins by simp
  have 3: "\<forall>r\<in>set (materials_tbl db').
             id_col r = material_id ?row \<longrightarrow> current_quantity r = quantity_after ?row"
  proof (intro ballI impI)
    fix r assume r: "r \<in> set (materials_tbl db')" "id_col r = material_id ?row"
    from r(1) upd ins have "r \<in> set (map (\<lambda>r. if id_col r = selectedMaterial st
               then update_material_status (time_now e)
                      (r\<lparr>current_quantity := current_quantity material + quantityChange st\<rparr>)
               else r) (materials_tbl db))" by simp
    moreover from r(2) have "id_col r = selectedMaterial st" by (simp add: history_row_def)
    ultimately have "current_quantity r = current_quantity material + quantityChange st"
      by (rule updated_row_quantity)
    then show "current_quantity r = quantity_after ?row" by (simp add: history_row_def)
  qed
  from 1 2 3 have "\<exists>row. stock_history_tbl db' = stock_history_tbl db @ [row] \<and>
                 material_id row \<in> set (map id_col (materials_tbl db')) \<and>
                 (\<forall>r\<in>set (materials_tbl db').
                    id_col r = material_id row \<longrightarrow> current_quantity r = quantity_after row)"
    by blast
  with upd ins show ?thesis by simp
qed

text \<open>C2 at a production use of 50 kg of STL-001 with both requests succeeding.\<close>

theorem update_then_insert_witness:
  "update_error env_ok = None \<and>
   stock_history_tbl (fst (handleSubmit env_ok (page_use 50) sample_db)) \<noteq> stock_history_tbl sample_db \<and>
   (\<exists>row. stock_history_tbl (fst (handleSubmit env_ok (page_use 50) sample_db)) =
            stock_history_tbl sample_db @ [row] \<and>
          material_id row \<in> set (map id_col (materials_tbl (fst (handleSubmit env_ok (page_use 50) sample_db)))) \<and>
          list_all (\<lambda>r. id_col r \<noteq> material_id row \<or> current_quantity r = quantity_after row)
            (materials_tbl (fst (handleSubmit env_ok (page_use 50) sample_db))))"
proof -
  let ?out = "handleSubmit env_ok (page_use 50) sample_db"
  have run: "?out = (fst ?out, fst (snd ?out), snd (snd ?out))" by simp
  have h0: "stock_history_tbl sample_db = []" by (simp add: sample_db_def)
  have ne: "stock_history_tbl (fst ?out) \<noteq> stock_history_tbl sample_db"
    unfolding h0 by (simp add: sample_run)
  from update_then_insert [OF run] ne show ?thesis
    by (auto simp add: env_ok_def list_all_iff)
qed

text \<open>
  C2 as claimed fails when the insert fails on the network: STL-001 goes from 450 to
  400 and the history stays empty.
\<close>

theorem applyAdjustment_not_atomic:
  "map current_quantity (materials_tbl sample_db) = [450, 85, 1200, 95] \<and>
   map current_quantity (materials_tbl (fst (handleSubmit env_insert_fails (page_use 50) sample_db)))
     = [400, 85, 1200, 95] \<and>
   stock_history_tbl sample_db = [] \<and>
   stock_history_tbl (fst (handleSubmit env_insert_fails (page_use 50) sample_db)) = [] \<and>
   snd (snd (handleSubmit env_insert_fails (page_use 50) sample_db)) = [error_toast ''Failed to fetch'']"
proof -
  have "handleSubmit env_insert_fails (page_use 50) sample_db =
     (sample_db\<lparr>materials_tbl := map (\<lambda>r. if id_col r = ''m1''
               then update_material_status 1000 (r\<lparr>current_quantity := 400\<rparr>)
               else r) (materials_tbl sample_db)\<rparr>, page_use 50, [error_toast ''Failed to fetch''])"
  proof (rule handleSubmit_insert_error)
    show "selectedMaterial (page_use 50) \<noteq> []" by (simp add: page_use_def)
    show "find (\<lambda>m. id_col m = selectedMaterial (page_use 50)) (materials (page_use 50)) =
       Some (material_view.truncate STL_001)" by (rule sample_find)
    show "0 \<le> current_quantity (material_view.truncate STL_001) + quantityChange (page_use 50)"
      by (simp add: sample_quantity page_use_def)
    show "auth_user env_insert_fails = Some ''u1''" by (simp add: env_insert_fails_def env_ok_def)
    show "update_current_quantity env_insert_fails (selectedMaterial (page_use 50))
       (current_quantity (material_view.truncate STL_001) + quantityChange (page_use 50)) sample_db =
       (None, sample_db\<lparr>materials_tbl := map (\<lambda>r. if id_col r = ''m1''
               then update_material_status 1000 (r\<lparr>current_quantity := 400\<rparr>)
               else r) (materials_tbl sample_db)\<rparr>)"
      by (simp add: update_current_quantity_def env_insert_fails_def env_ok_def sample_quantity page_use_def)
    show "insert_stock_history env_insert_fails
       (history_row env_insert_fails (page_use 50) ''u1'' (material_view.truncate STL_001))
       (sample_db\<lparr>materials_tbl := map (\<lambda>r. if id_col r = ''m1''
               then update_material_status 1000 (r\<lparr>current_quantity := 400\<rparr>)
               else r) (materials_tbl sample_db)\<rparr>) =
       (Some ''Failed to fetch'', sample_db\<lparr>materials_tbl := map (\<lambda>r. if id_col r = ''m1''
               then update_material_status 1000 (r\<lparr>current_quantity := 400\<rparr>)
               else r) (materials_tbl sample_db)\<rparr>)"
      by (simp add: insert_stock_history_def env_insert_fails_def env_ok_def)
  qed
  then show ?thesis
    by (simp add: sample_db_def STL_001_def CHM_003_def ELC_004_def PLS_007_def sample_row_def
          update_material_status_def Let_def)
qed

text \<open>
  C9 on the code: with nobody signed in, \<^verbatim>\<open>handleSubmit\<close> writes nothing, and
  shows nothing either. The list of toasts is empty, whereas the other rejections of
  the function show an error.
\<close>

theorem applyAdjustment_signed_out_silent:
  "handleSubmit env_signed_out (page_use 50) sample_db = (sample_db, page_use 50, [])"
proof (rule handleSubmit_no_user)
  show "selectedMaterial (page_use 50) \<noteq> []" by (simp add: page_use_def)
  show "find (\<lambda>m. id_col m = selectedMaterial (page_use 50)) (materials (page_use 50)) =
     Some (material_view.truncate STL_001)" by (rule sample_find)
  show "0 \<le> current_quantity (material_view.truncate STL_001) + quantityChange (page_use 50)"
    by (simp add: sample_quantity page_use_def)
  show "auth_user env_signed_out = None" by (simp add: env_signed_out_def env_ok_def)
qed

end
